theory Spec2Isabelle
  imports Main "HOL-Library.Multiset" "HOL-Library.AList" "HOL-Library.Sublist"
begin

section \<open>Staff allotment: data model\<close>

text \<open>
  The staff directory is a list of dictionaries with the keys \<open>staff_name\<close>,
  \<open>staff_dept\<close> and \<open>staff_gender\<close>; the upload boundary of \<open>desktop_app.py\<close>
  writes all three keys for every record, so a record type carries them. A room
  requirement (\<open>class_info\<close>) is a dictionary with \<open>room_no\<close>, \<open>girls_only\<close> and
  \<open>single_staff\<close>, the two flags read from check boxes; the configuration dialog
  writes all three keys. An entry of the result list holds \<open>room_no\<close> and \<open>staff\<close>.
  Strings are lists of 8-bit characters, read as code points below 256.
\<close>

record staff_member =
  staff_name :: string
  staff_dept :: string
  staff_gender :: string

record class_info =
  room_no :: string
  girls_only :: bool
  single_staff :: bool

record allotment =
  allotted_room_no :: string
  staff :: "staff_member list"

text \<open>
  What \<open>allocate_staff\<close> can raise: the read of \<open>data/excluded_staff.json\<close> fails
  (open, \<open>json.load\<close> or \<open>set(...)\<close>), or \<open>list.remove\<close> does not find its argument.
\<close>

datatype error = Exclusion_Read_Error | ValueError

text \<open>
  The exclusion file as \<open>allocate_staff\<close> meets it: absent (\<open>os.path.exists\<close> is
  false), present but not loadable, or present with a list of names.
\<close>

datatype excluded_file = No_File | Unreadable | Names "string list"

section \<open>String helpers of the Python runtime\<close>

text \<open>\<open>str.upper\<close> on the letters \<open>a\<close> to \<open>z\<close>; every other character is kept.\<close>

definition upper_char :: "char \<Rightarrow> char" where
  "upper_char c =
     (case map_of (zip ''abcdefghijklmnopqrstuvwxyz'' ''ABCDEFGHIJKLMNOPQRSTUVWXYZ'') c of
        Some u \<Rightarrow> u
      | None \<Rightarrow> c)"

definition upper :: "string \<Rightarrow> string" where
  "upper s = map upper_char s"

text \<open>
  \<open>str.strip\<close> removes leading and trailing whitespace: tab, line feed, vertical tab,
  form feed, carriage return, the separators \<open>0x1c\<close> to \<open>0x1f\<close>, space, \<open>0x85\<close>
  and \<open>0xa0\<close>.
\<close>

definition is_space :: "char \<Rightarrow> bool" where
  "is_space c =
     (c \<in> set [CHR 0x09, CHR 0x0A, CHR 0x0B, CHR 0x0C, CHR 0x0D, CHR 0x1C, CHR 0x1D, CHR 0x1E,
                CHR 0x1F, CHR '' '', CHR 0x85, CHR 0xA0])"

definition strip :: "string \<Rightarrow> string" where
  "strip s = rev (dropWhile is_space (rev (dropWhile is_space s)))"

section \<open>The allocation engine\<close>

text \<open>
  \<open>random.shuffle(x)\<close> is the loop
  \<^verbatim>\<open>for i in reversed(range(1, len(x))): j = randbelow(i + 1); x[i], x[j] = x[j], x[i]\<close>.
  The random source is a parameter: \<open>rng i\<close> is the raw draw used at index \<open>i\<close>, reduced
  into \<open>0..i\<close> as \<open>randbelow (i + 1)\<close> does.
\<close>

fun shuffle_from :: "(nat \<Rightarrow> nat) \<Rightarrow> nat \<Rightarrow> 'a list \<Rightarrow> 'a list" where
  "shuffle_from rng 0 x = x"
| "shuffle_from rng (Suc k) x =
     (let i = Suc k; j = rng i mod (i + 1)
      in shuffle_from rng k (x[i := x ! j, j := x ! i]))"

definition shuffle :: "(nat \<Rightarrow> nat) \<Rightarrow> 'a list \<Rightarrow> 'a list" where
  "shuffle rng x = shuffle_from rng (length x - 1) x"

text \<open>\<open>s.get('staff_gender', '').upper() in ['F', 'FEMALE']\<close>\<close>

definition is_female :: "staff_member \<Rightarrow> bool" where
  "is_female s = (upper (staff_gender s) \<in> set [''F'', ''FEMALE''])"

text \<open>
  The inner loop
  \<^verbatim>\<open>while len(selected_staff) < staff_needed and eligible_staff:\<close>
  pops the head of \<open>eligible_staff\<close>, appends it to \<open>selected_staff\<close> and removes its
  first occurrence from \<open>staff_list\<close>; \<open>list.remove\<close> raises when there is none.
  The result is the pair of \<open>selected_staff\<close> and the updated \<open>staff_list\<close>.
\<close>

fun select_staff ::
  "nat \<Rightarrow> staff_member list \<Rightarrow> staff_member list \<Rightarrow> staff_member list
     \<Rightarrow> error + (staff_member list \<times> staff_member list)" where
  "select_staff staff_needed [] selected_staff staff_list = Inr (selected_staff, staff_list)"
| "select_staff staff_needed (s # eligible_staff) selected_staff staff_list =
     (if length selected_staff < staff_needed then
        (if s \<in> set staff_list
         then select_staff staff_needed eligible_staff (selected_staff @ [s]) (remove1 s staff_list)
         else Inl ValueError)
      else Inr (selected_staff, staff_list))"

text \<open>
  The loop over \<open>classes_list\<close>, with \<open>allotments\<close> as accumulator. An entry is appended
  only when \<open>selected_staff\<close> is not empty (\<open>if selected_staff:\<close>).
\<close>

fun process_rooms ::
  "staff_member list \<Rightarrow> class_info list \<Rightarrow> allotment list \<Rightarrow> error + allotment list" where
  "process_rooms staff_list [] allotments = Inr allotments"
| "process_rooms staff_list (c # classes_list) allotments =
     (let eligible_staff = (if girls_only c then filter is_female staff_list else staff_list);
          staff_needed = (if single_staff c then 1 else 2)
      in case select_staff staff_needed eligible_staff [] staff_list of
           Inl e \<Rightarrow> Inl e
         | Inr (selected_staff, staff_list') \<Rightarrow>
             process_rooms staff_list' classes_list
               (if selected_staff \<noteq> []
                then allotments @ [\<lparr>allotted_room_no = room_no c, staff = selected_staff\<rparr>]
                else allotments))"

text \<open>
  \<open>allocate_staff(staff_list, classes_list, date)\<close>: filter by the exclusion file when it
  exists, shuffle, run the room loop. Any exception is printed and raised again.
\<close>

definition allocate_staff ::
  "excluded_file \<Rightarrow> (nat \<Rightarrow> nat) \<Rightarrow> staff_member list \<Rightarrow> class_info list \<Rightarrow> string
     \<Rightarrow> error + allotment list" where
  "allocate_staff file rng staff_list classes_list date =
     (case file of
        No_File \<Rightarrow> process_rooms (shuffle rng staff_list) classes_list []
      | Unreadable \<Rightarrow> Inl Exclusion_Read_Error
      | Names excluded_staff \<Rightarrow>
          process_rooms
            (shuffle rng [s \<leftarrow> staff_list. strip (staff_name s) \<notin> set excluded_staff])
            classes_list [])"

subsection \<open>The engine in the words of the specification\<close>

text \<open>
  Section 4.3 of the specification: the effective need of a room, its eligible subset of
  the current pool, the staff taken from the front of that subset, the pool after their
  removal, and the run over the requirement list in its given order, which emits an
  Assignment for every room. The exclusion set is the content of the exclusion file, and
  empty when there is none to read.
\<close>

definition spec_required_count :: "class_info \<Rightarrow> nat" where
  "spec_required_count r = (if single_staff r then 1 else 2)"

definition spec_eligible :: "class_info \<Rightarrow> staff_member list \<Rightarrow> staff_member list" where
  "spec_eligible r pool = (if girls_only r then filter is_female pool else pool)"

definition spec_taken :: "class_info \<Rightarrow> staff_member list \<Rightarrow> staff_member list" where
  "spec_taken r pool = take (spec_required_count r) (spec_eligible r pool)"

definition spec_remove :: "staff_member list \<Rightarrow> staff_member list \<Rightarrow> staff_member list" where
  "spec_remove taken pool = fold remove1 taken pool"

fun spec_engine :: "staff_member list \<Rightarrow> class_info list \<Rightarrow> allotment list" where
  "spec_engine pool [] = []"
| "spec_engine pool (r # rs) =
     \<lparr>allotted_room_no = room_no r, staff = spec_taken r pool\<rparr>
       # spec_engine (spec_remove (spec_taken r pool) pool) rs"

fun spec_pool_after :: "staff_member list \<Rightarrow> class_info list \<Rightarrow> staff_member list" where
  "spec_pool_after pool [] = pool"
| "spec_pool_after pool (r # rs) = spec_pool_after (spec_remove (spec_taken r pool) pool) rs"

definition spec_exclusion_set :: "excluded_file \<Rightarrow> string set" where
  "spec_exclusion_set file = (case file of Names excluded_staff \<Rightarrow> set excluded_staff | _ \<Rightarrow> {})"

definition spec_pool ::
  "excluded_file \<Rightarrow> (nat \<Rightarrow> nat) \<Rightarrow> staff_member list \<Rightarrow> staff_member list" where
  "spec_pool file rng staff_list =
     shuffle rng [s \<leftarrow> staff_list. strip (staff_name s) \<notin> spec_exclusion_set file]"

section \<open>The requirement aggregator\<close>

text \<open>
  \<open>calculate_staff_requirements\<close> walks \<open>self.available_classes\<close> and reads the two
  check boxes of each room's frame in \<open>self.room_frames\<close>. A room without a frame makes
  the lookup raise; the handler then returns \<open>(0, 0, 0)\<close>. The counters are Python
  integers.
\<close>

record room_frame =
  girls_only_var :: bool
  single_staff_var :: bool

fun requirements_loop ::
  "(string \<rightharpoonup> room_frame) \<Rightarrow> string list \<Rightarrow> int \<Rightarrow> int \<Rightarrow> (int \<times> int) option" where
  "requirements_loop room_frames [] total_required female_required =
     Some (total_required, female_required)"
| "requirements_loop room_frames (room # available_classes) total_required female_required =
     (case room_frames room of
        None \<Rightarrow> None
      | Some frame \<Rightarrow>
          (if single_staff_var frame then
             requirements_loop room_frames available_classes (total_required + 1)
               (if girls_only_var frame then female_required + 1 else female_required)
           else
             requirements_loop room_frames available_classes (total_required + 2)
               (if girls_only_var frame then female_required + 2 else female_required)))"

definition calculate_staff_requirements ::
  "(string \<rightharpoonup> room_frame) \<Rightarrow> string list \<Rightarrow> int \<times> int \<times> int" where
  "calculate_staff_requirements room_frames available_classes =
     (case requirements_loop room_frames available_classes 0 0 of
        None \<Rightarrow> (0, 0, 0)
      | Some (total_required, female_required) \<Rightarrow>
          (total_required, female_required, total_required - female_required))"

text \<open>The headcount of one room as the specification writes it: 1 if single staff, else 2.\<close>

definition spec_headcount :: "room_frame \<Rightarrow> int" where
  "spec_headcount r = (if single_staff_var r then 1 else 2)"

section \<open>The configuration store\<close>

text \<open>
  Configurations are JSON values. \<open>self.configurations\<close> is a dictionary from date
  strings to configurations: an association list with unique keys, updated in place or
  extended at the end as a Python dictionary is.
\<close>

datatype json =
  JNull | JBool bool | JNum int | JStr string | JArr "json list" | JObj "(string \<times> json) list"

text \<open>
  The file \<open>data/classes.json\<close> holds a document, or what an interrupted write left.
  A call of \<open>save_configurations\<close> meets one of three outcomes: the write succeeds;
  \<open>os.makedirs\<close> or \<open>open\<close> raises and the file is untouched; \<open>json.dump\<close> raises
  after \<open>open(..., 'w')\<close> has truncated the file.
\<close>

datatype file_state = Document json | Damaged

datatype write_outcome = Write_Ok | Fails_Before_Open | Fails_After_Open

record configuration_manager =
  configurations :: "(string \<times> json) list"
  classes_file :: file_state

definition save_configurations ::
  "write_outcome \<Rightarrow> configuration_manager \<Rightarrow> bool \<times> configuration_manager" where
  "save_configurations w self =
     (case w of
        Write_Ok \<Rightarrow> (True, self\<lparr>classes_file := Document (JObj (configurations self))\<rparr>)
      | Fails_Before_Open \<Rightarrow> (False, self)
      | Fails_After_Open \<Rightarrow> (False, self\<lparr>classes_file := Damaged\<rparr>))"

definition default_config :: json where
  "default_config =
     JObj [(''rooms'', JArr []),
           (''settings'',
            JObj [(''reporting_time'', JStr []), (''assessment_name'', JStr []),
                  (''exam_time'', JStr []), (''exam_details'', JStr [])])]"

definition get_date_config :: "configuration_manager \<Rightarrow> string \<Rightarrow> json" where
  "get_date_config self date =
     (case map_of (configurations self) date of Some config \<Rightarrow> config | None \<Rightarrow> default_config)"

definition set_date_config ::
  "write_outcome \<Rightarrow> string \<Rightarrow> json \<Rightarrow> configuration_manager \<Rightarrow> bool \<times> configuration_manager" where
  "set_date_config w date config self =
     save_configurations w (self\<lparr>configurations := AList.update date config (configurations self)\<rparr>)"

text \<open>\<open>clear_configurations\<close> drops the result of \<open>save_configurations\<close> and returns nothing.\<close>

definition clear_configurations :: "write_outcome \<Rightarrow> configuration_manager \<Rightarrow> configuration_manager" where
  "clear_configurations w self = snd (save_configurations w (self\<lparr>configurations := []\<rparr>))"

section \<open>Properties of the allocation engine\<close>

subsection \<open>The shuffle permutes\<close>

lemma mset_shuffle_from:
  "k < length x \<Longrightarrow> mset (shuffle_from rng k x) = mset x"
proof (induction k arbitrary: x)
  case 0
  then show ?case by simp
next
  case (Suc k)
  let ?j = "rng (Suc k) mod (Suc k + 1)"
  have j: "?j < length x"
    using Suc.prems by (simp add: less_Suc_eq_le order.strict_trans1 [OF _ Suc.prems])
  have sw: "mset (x[Suc k := x ! ?j, ?j := x ! Suc k]) = mset x"
    using j Suc.prems by (rule mset_swap)
  have "k < length (x[Suc k := x ! ?j, ?j := x ! Suc k])"
    using Suc.prems by simp
  from Suc.IH [OF this] sw show ?case
    by (simp add: Let_def)
qed

lemma mset_shuffle: "mset (shuffle rng x) = mset x"
proof (cases x)
  case Nil
  then show ?thesis by (simp add: shuffle_def)
next
  case (Cons a as)
  then have "length x - 1 < length x" by simp
  then show ?thesis unfolding shuffle_def by (rule mset_shuffle_from)
qed

lemma set_shuffle: "set (shuffle rng x) = set x"
  using mset_shuffle [of rng x] by (rule mset_eq_setD)

lemma shuffle_Nil: "shuffle rng [] = []"
  by (simp add: shuffle_def)

subsection \<open>The inner loop takes a prefix of the eligible staff\<close>

lemma select_staff_take:
  "mset eligible_staff \<subseteq># mset staff_list \<Longrightarrow>
   select_staff n eligible_staff selected staff_list =
     Inr (selected @ take (n - length selected) eligible_staff,
          fold remove1 (take (n - length selected) eligible_staff) staff_list)"
proof (induction eligible_staff arbitrary: selected staff_list)
  case Nil
  then show ?case by simp
next
  case (Cons s el)
  show ?case
  proof (cases "length selected < n")
    case False
    then show ?thesis by simp
  next
    case True
    from Cons.prems have mem: "s \<in> set staff_list"
      by (metis insert_subset_eq_iff mset.simps(2) set_mset_mset)
    from Cons.prems have sub: "mset el \<subseteq># mset (remove1 s staff_list)"
      by (simp add: insert_subset_eq_iff)
    from True obtain m where m: "n - length selected = Suc m" "n - length (selected @ [s]) = m"
      by (cases "n - length selected") auto
    show ?thesis
      using True mem Cons.IH [OF sub, of "selected @ [s]"] m by simp
  qed
qed

lemma mset_eligible: "mset (spec_eligible r pool) \<subseteq># mset pool"
  by (simp add: spec_eligible_def)

lemma mset_taken: "mset (spec_taken r pool) \<subseteq># mset pool"
  unfolding spec_taken_def
  by (metis mset_eligible append_take_drop_id mset_append subset_mset.order_trans
      mset_subset_eq_add_left)

lemma select_staff_spec:
  "select_staff (if single_staff c then 1 else 2)
     (if girls_only c then filter is_female staff_list else staff_list) [] staff_list
   = Inr (spec_taken c staff_list, spec_remove (spec_taken c staff_list) staff_list)"
  using select_staff_take [OF mset_eligible [of c staff_list],
      where n = "spec_required_count c" and selected = "[]"]
  by (simp add: spec_taken_def spec_remove_def spec_eligible_def spec_required_count_def)

lemma mset_spec_remove: "mset (spec_remove t pool) = mset pool - mset t"
  unfolding spec_remove_def by (induction t arbitrary: pool) simp_all

lemma subseq_remove1: "subseq (remove1 a pool) pool"
  by (induction pool) auto

lemma subseq_spec_remove: "subseq (spec_remove t pool) pool"
  unfolding spec_remove_def
proof (induction t arbitrary: pool)
  case Nil
  show ?case by simp
next
  case (Cons a t)
  have "subseq (fold remove1 t (remove1 a pool)) (remove1 a pool)"
    by (rule Cons.IH)
  then show ?case
    using subseq_remove1 [of a pool] by (auto intro: subseq_order.order_trans)
qed

lemma subseq_spec_taken: "subseq (spec_taken r pool) pool"
proof -
  have "subseq (spec_taken r pool) (spec_eligible r pool)"
    unfolding spec_taken_def by (rule prefix_imp_subseq) (rule take_is_prefix)
  moreover have "subseq (spec_eligible r pool) pool"
    by (simp add: spec_eligible_def)
  ultimately show ?thesis by (rule subseq_order.order_trans)
qed

subsection \<open>The room loop against the specification's engine\<close>

lemma process_rooms_step:
  "process_rooms pool (r # rs) acc =
     process_rooms (spec_remove (spec_taken r pool) pool) rs
       (if spec_taken r pool \<noteq> []
        then acc @ [\<lparr>allotted_room_no = room_no r, staff = spec_taken r pool\<rparr>]
        else acc)"
  by (simp only: process_rooms.simps Let_def select_staff_spec sum.case prod.case)

lemma process_rooms_spec:
  "process_rooms pool rs acc = Inr (acc @ [a \<leftarrow> spec_engine pool rs. staff a \<noteq> []])"
proof (induction rs arbitrary: pool acc)
  case Nil
  then show ?case by simp
next
  case (Cons r rs)
  show ?case
    by (simp add: process_rooms_step Cons.IH del: process_rooms.simps)
qed

lemma allocate_staff_spec:
  "file \<noteq> Unreadable \<Longrightarrow>
   allocate_staff file rng staff_list classes_list date =
     Inr [a \<leftarrow> spec_engine (spec_pool file rng staff_list) classes_list. staff a \<noteq> []]"
  by (cases "file")
     (simp_all add: allocate_staff_def spec_pool_def spec_exclusion_set_def process_rooms_spec)

subsection \<open>Staff are drawn from the pool, each at most once\<close>

lemma concat_staff_filter:
  "concat (map staff [a \<leftarrow> xs. staff a \<noteq> []]) = concat (map staff xs)"
  by (induction xs) simp_all

lemma spec_engine_append:
  "spec_engine pool (rs1 @ rs2) = spec_engine pool rs1 @ spec_engine (spec_pool_after pool rs1) rs2"
  by (induction rs1 arbitrary: pool) simp_all

lemma spec_pool_after_append:
  "spec_pool_after pool (rs1 @ rs2) = spec_pool_after (spec_pool_after pool rs1) rs2"
  by (induction rs1 arbitrary: pool) simp_all

lemma mset_spec_engine:
  "mset (concat (map staff (spec_engine pool rs))) + mset (spec_pool_after pool rs) = mset pool"
proof (induction rs arbitrary: pool)
  case Nil
  show ?case by simp
next
  case (Cons r rs)
  have "mset (spec_taken r pool) + mset (spec_remove (spec_taken r pool) pool) = mset pool"
    using mset_taken [of r pool] by (simp add: mset_spec_remove)
  with Cons.IH [of "spec_remove (spec_taken r pool) pool"] show ?case
    by (simp add: add.assoc)
qed

lemma mset_assigned_subset:
  "mset (concat (map staff [a \<leftarrow> spec_engine pool rs. staff a \<noteq> []])) \<subseteq># mset pool"
  using mset_spec_engine [of pool rs]
  by (metis concat_staff_filter mset_subset_eq_add_left)

lemma set_assigned_subset:
  "set (concat (map staff [a \<leftarrow> spec_engine pool rs. staff a \<noteq> []])) \<subseteq> set pool"
  using mset_assigned_subset [of pool rs] by (rule set_mset_mono [of "mset _" "mset _", simplified])

lemma mset_spec_pool: "mset (spec_pool file rng staff_list) \<subseteq># mset staff_list"
  by (simp add: spec_pool_def mset_shuffle)

lemma distinct_mset_subset:
  assumes "distinct ys" and "mset xs \<subseteq># mset ys"
  shows "distinct xs"
proof -
  have "count (mset xs) a \<le> 1" for a
  proof -
    have "count (mset xs) a \<le> count (mset ys) a"
      using assms(2) by (rule mset_subset_eq_count)
    also have "\<dots> \<le> 1"
      using assms(1) by (simp add: distinct_count_atmost_1)
    finally show ?thesis .
  qed
  then show ?thesis
    unfolding distinct_count_atmost_1
    by (metis count_greater_zero_iff count_mset_0_iff le_antisym less_one linorder_not_le set_mset_mset)
qed

lemma room_segment:
  assumes "file \<noteq> Unreadable"
  shows "allocate_staff file rng staff_list (earlier @ r # later) date =
     Inr ([a \<leftarrow> spec_engine (spec_pool file rng staff_list) earlier. staff a \<noteq> []]
          @ (if spec_taken r (spec_pool_after (spec_pool file rng staff_list) earlier) = [] then []
             else [\<lparr>allotted_room_no = room_no r,
                    staff = spec_taken r (spec_pool_after (spec_pool file rng staff_list) earlier)\<rparr>])
          @ [a \<leftarrow> spec_engine (spec_pool_after (spec_pool file rng staff_list) (earlier @ [r])) later.
               staff a \<noteq> []])"
  using assms by (simp add: allocate_staff_spec spec_engine_append spec_pool_after_append)

lemma taken_girls_only:
  assumes "girls_only r"
  shows "spec_taken r p = take (if single_staff r then 1 else 2) (filter is_female p)"
  using assms by (simp add: spec_taken_def spec_eligible_def spec_required_count_def)

subsection \<open>The aggregator's loop\<close>

lemma requirements_loop_sums:
  "map room_frames available_classes = map Some reqs \<Longrightarrow>
   requirements_loop room_frames available_classes t f =
     Some (t + sum_list (map spec_headcount reqs),
           f + sum_list (map spec_headcount (filter girls_only_var reqs)))"
proof (induction available_classes arbitrary: reqs t f)
  case Nil
  then show ?case by simp
next
  case (Cons room rooms)
  from Cons.prems obtain q qs where reqs: "reqs = q # qs"
    and q: "room_frames room = Some q" and qs: "map room_frames rooms = map Some qs"
    by (cases reqs) auto
  show ?case
    using Cons.IH [OF qs] q by (simp add: reqs spec_headcount_def)
qed

subsection \<open>Unfolding the engine on concrete inputs\<close>

lemmas engine_eval =
  allocate_staff_def shuffle_def spec_pool_def spec_exclusion_set_def spec_taken_def
  spec_eligible_def spec_required_count_def spec_remove_def is_female_def upper_def
  upper_char_def

section \<open>Claims\<close>

text \<open>
  C1, as the specification states it: with an empty pool and the single requirement for
  room X (two staff, any gender) the engine returns the list holding one Assignment for X
  with an empty staff list. The code appends an entry only under \<open>if selected_staff:\<close>,
  so the run returns the empty list.
\<close>

theorem allocate_staff_empty_pool_counterexample:
  "allocate_staff No_File id []
     [\<lparr>room_no = ''X'', girls_only = False, single_staff = False\<rparr>] ''2024-01-01''
   \<noteq> Inr [\<lparr>allotted_room_no = ''X'', staff = []\<rparr>]"
  by (simp add: allocate_staff_def shuffle_def)

text \<open>
  C1, amended: whenever the exclusion file is absent or loads, \<open>allocate_staff\<close> returns
  without error, and its result is the specification's per-room Assignments, in
  requirement order, with exactly those of an empty staff list left out: a room for which
  no eligible staff remain gets no entry. With an empty staff list the result is the empty
  list, whatever the requirements.
\<close>

theorem allocate_staff_emits_staffed_rooms:
  "file \<noteq> Unreadable \<Longrightarrow>
   allocate_staff file rng staff_list classes_list date =
     Inr [a \<leftarrow> spec_engine (spec_pool file rng staff_list) classes_list. staff a \<noteq> []]
   \<and> allocate_staff file rng [] classes_list date = Inr []"
proof
  assume ok: "file \<noteq> Unreadable"
  then show "allocate_staff file rng staff_list classes_list date =
     Inr [a \<leftarrow> spec_engine (spec_pool file rng staff_list) classes_list. staff a \<noteq> []]"
    by (rule allocate_staff_spec)
  have empty: "[a \<leftarrow> spec_engine [] rs. staff a \<noteq> []] = []" for rs
    by (induction rs) (simp_all add: spec_taken_def spec_eligible_def spec_remove_def)
  show "allocate_staff file rng [] classes_list date = Inr []"
    using ok by (simp add: allocate_staff_spec spec_pool_def shuffle_Nil empty)
qed

theorem allocate_staff_emits_staffed_rooms_witness:
  "No_File \<noteq> Unreadable \<and>
   allocate_staff No_File id
     [\<lparr>staff_name = ''B'', staff_dept = ''ECE'', staff_gender = ''M''\<rparr>]
     [\<lparr>room_no = ''X'', girls_only = True, single_staff = False\<rparr>,
      \<lparr>room_no = ''Y'', girls_only = False, single_staff = False\<rparr>] ''2024-01-01''
   = Inr [\<lparr>allotted_room_no = ''Y'',
            staff = [\<lparr>staff_name = ''B'', staff_dept = ''ECE'', staff_gender = ''M''\<rparr>]\<rparr>]
   \<and> allocate_staff No_File id []
        [\<lparr>room_no = ''X'', girls_only = False, single_staff = False\<rparr>] ''2024-01-01'' = Inr []"
proof -
  have h: "No_File \<noteq> Unreadable" by simp
  show ?thesis
    using allocate_staff_emits_staffed_rooms [OF h, of id
        "[\<lparr>staff_name = ''B'', staff_dept = ''ECE'', staff_gender = ''M''\<rparr>]"
        "[\<lparr>room_no = ''X'', girls_only = True, single_staff = False\<rparr>,
          \<lparr>room_no = ''Y'', girls_only = False, single_staff = False\<rparr>]" "''2024-01-01''"]
      allocate_staff_emits_staffed_rooms [OF h, of id "[]"
        "[\<lparr>room_no = ''X'', girls_only = False, single_staff = False\<rparr>]" "''2024-01-01''"]
    by (simp add: spec_pool_def spec_exclusion_set_def shuffle_def spec_taken_def
        spec_eligible_def spec_required_count_def spec_remove_def is_female_def upper_def
        upper_char_def)
qed

text \<open>
  C2, as the specification states it: when fewer FEMALE staff than required remain for a
  girls-only room, the room's Assignment holds exactly that many members. With a pool of
  one male member and one girls-only room, no FEMALE staff remain (\<open>k = 0\<close>), and the
  result has no Assignment for the room at all, rather than one with no members.
\<close>

theorem girls_only_room_no_female_counterexample:
  "length (filter is_female [\<lparr>staff_name = ''B'', staff_dept = ''ECE'', staff_gender = ''M''\<rparr>]) = 0
   \<and> allocate_staff No_File id
       [\<lparr>staff_name = ''B'', staff_dept = ''ECE'', staff_gender = ''M''\<rparr>]
       [\<lparr>room_no = ''G'', girls_only = True, single_staff = False\<rparr>] ''2024-01-01''
     \<noteq> Inr [\<lparr>allotted_room_no = ''G'', staff = []\<rparr>]
   \<and> allocate_staff No_File id
       [\<lparr>staff_name = ''B'', staff_dept = ''ECE'', staff_gender = ''M''\<rparr>]
       [\<lparr>room_no = ''G'', girls_only = True, single_staff = False\<rparr>] ''2024-01-01''
     = Inr []"
  by (simp add: engine_eval)

text \<open>
  C2, amended: in a run of \<open>allocate_staff\<close> over the requirements
  \<open>earlier @ r # later\<close> with \<open>r\<close> girls-only, let \<open>k\<close> be the number of female staff
  left in the pool when \<open>r\<close> is reached. The staff taken for \<open>r\<close> are all female, and
  they are as many as the smaller of \<open>k\<close> and the required count: exactly \<open>k\<close> when
  \<open>k\<close> is below the required count. The result is the entries of the earlier rooms, then
  for \<open>k > 0\<close> the one Assignment of \<open>r\<close> with exactly these staff and for \<open>k = 0\<close>
  no Assignment of \<open>r\<close>, then the entries of the later rooms.
\<close>

theorem girls_only_room_female_staff:
  assumes "file \<noteq> Unreadable" and "girls_only r"
  shows "let p = spec_pool_after (spec_pool file rng staff_list) earlier;
             k = length (filter is_female p);
             taken = take (if single_staff r then 1 else 2) (filter is_female p)
         in (\<forall>s \<in> set taken. is_female s)
          \<and> length taken = min k (if single_staff r then 1 else 2)
          \<and> (\<exists>out1 out2.
                allocate_staff file rng staff_list (earlier @ r # later) date
                  = Inr (out1
                         @ (if k = 0 then []
                            else [\<lparr>allotted_room_no = room_no r, staff = taken\<rparr>])
                         @ out2)
              \<and> allocate_staff file rng staff_list earlier date = Inr out1
              \<and> process_rooms
                  (spec_pool_after (spec_pool file rng staff_list) (earlier @ [r])) later []
                  = Inr out2)"
proof -
  define p where "p = spec_pool_after (spec_pool file rng staff_list) earlier"
  define t where "t = take (if single_staff r then 1 else 2) (filter is_female p)"
  define out1 where "out1 = [a \<leftarrow> spec_engine (spec_pool file rng staff_list) earlier. staff a \<noteq> []]"
  define out2 where
    "out2 = [a \<leftarrow> spec_engine (spec_pool_after (spec_pool file rng staff_list) (earlier @ [r])) later.
               staff a \<noteq> []]"
  have t: "spec_taken r p = t"
    unfolding t_def using assms(2) by (rule taken_girls_only)
  have empty: "(t = []) = (length (filter is_female p) = 0)"
    by (simp add: t_def)
  have fem: "\<forall>s \<in> set t. is_female s"
    unfolding t_def by (auto dest: in_set_takeD)
  have len: "length t = min (length (filter is_female p)) (if single_staff r then 1 else 2)"
    unfolding t_def by (simp add: min.commute)
  have "allocate_staff file rng staff_list (earlier @ r # later) date =
      Inr (out1 @ (if spec_taken r p = [] then []
                   else [\<lparr>allotted_room_no = room_no r, staff = spec_taken r p\<rparr>]) @ out2)"
    unfolding out1_def out2_def p_def using assms(1) by (rule room_segment)
  then have 1: "allocate_staff file rng staff_list (earlier @ r # later) date =
      Inr (out1 @ (if length (filter is_female p) = 0 then []
                   else [\<lparr>allotted_room_no = room_no r, staff = t\<rparr>]) @ out2)"
    by (simp only: t empty)
  have 2: "allocate_staff file rng staff_list earlier date = Inr out1"
    unfolding out1_def using assms(1) by (rule allocate_staff_spec)
  have 3: "process_rooms (spec_pool_after (spec_pool file rng staff_list) (earlier @ [r])) later []
      = Inr out2"
    unfolding out2_def by (simp add: process_rooms_spec)
  from 1 2 3 have "\<exists>out1 out2.
                allocate_staff file rng staff_list (earlier @ r # later) date
                  = Inr (out1
                         @ (if length (filter is_female p) = 0 then []
                            else [\<lparr>allotted_room_no = room_no r, staff = t\<rparr>])
                         @ out2)
              \<and> allocate_staff file rng staff_list earlier date = Inr out1
              \<and> process_rooms
                  (spec_pool_after (spec_pool file rng staff_list) (earlier @ [r])) later []
                  = Inr out2"
    by (intro exI conjI)
  with fem len show ?thesis
    unfolding Let_def p_def [symmetric] t_def [symmetric] by (intro conjI)
qed

theorem girls_only_room_female_staff_witness:
  "No_File \<noteq> Unreadable
   \<and> girls_only \<lparr>room_no = ''G'', girls_only = True, single_staff = False\<rparr>
   \<and> is_female \<lparr>staff_name = ''A'', staff_dept = ''CSE'', staff_gender = ''f''\<rparr>
   \<and> allocate_staff No_File Suc
        [\<lparr>staff_name = ''A'', staff_dept = ''CSE'', staff_gender = ''f''\<rparr>,
         \<lparr>staff_name = ''B'', staff_dept = ''ECE'', staff_gender = ''M''\<rparr>]
        [\<lparr>room_no = ''G'', girls_only = True, single_staff = False\<rparr>] ''2024-01-01''
      = Inr [\<lparr>allotted_room_no = ''G'',
               staff = [\<lparr>staff_name = ''A'', staff_dept = ''CSE'', staff_gender = ''f''\<rparr>]\<rparr>]"
proof -
  have h1: "No_File \<noteq> Unreadable" by simp
  have h2: "girls_only \<lparr>room_no = ''G'', girls_only = True, single_staff = False\<rparr>" by simp
  show ?thesis
    using girls_only_room_female_staff [OF h1 h2, where rng = Suc and earlier = "[]"
      and later = "[]" and date = "''2024-01-01''" and staff_list =
          "[\<lparr>staff_name = ''A'', staff_dept = ''CSE'', staff_gender = ''f''\<rparr>,
            \<lparr>staff_name = ''B'', staff_dept = ''ECE'', staff_gender = ''M''\<rparr>]"]
    by (simp add: engine_eval Let_def)
qed

text \<open>
  C3: whatever \<open>allocate_staff\<close> returns, the staff of all its entries together form
  a sub-multiset of the input staff list: each pool member is assigned at most once (a
  record listed twice in the input at most twice). When the names of the staff list are
  unique, as the data model requires, no name appears twice in the whole output, hence
  not in two entries.
\<close>

theorem allocate_staff_no_reuse:
  assumes "allocate_staff file rng staff_list classes_list date = Inr out"
  shows "mset (concat (map staff out)) \<subseteq># mset staff_list
         \<and> (distinct (map staff_name staff_list)
              \<longrightarrow> distinct (map staff_name (concat (map staff out))))"
proof -
  from assms have ok: "file \<noteq> Unreadable"
    by (auto simp: allocate_staff_def)
  from assms allocate_staff_spec [OF ok, of rng staff_list classes_list date]
  have out: "out = [a \<leftarrow> spec_engine (spec_pool file rng staff_list) classes_list. staff a \<noteq> []]"
    by simp
  have sub: "mset (concat (map staff out)) \<subseteq># mset staff_list"
    unfolding out using mset_assigned_subset mset_spec_pool
    by (rule subset_mset.order_trans)
  have "distinct (map staff_name (concat (map staff out)))"
    if d: "distinct (map staff_name staff_list)"
  proof -
    have "mset (map staff_name (concat (map staff out))) \<subseteq># mset (map staff_name staff_list)"
      using sub by (simp add: image_mset_subseteq_mono del: mset_concat)
    with d show ?thesis by (rule distinct_mset_subset)
  qed
  with sub show ?thesis by blast
qed

theorem allocate_staff_no_reuse_witness:
  "allocate_staff No_File Suc
     [\<lparr>staff_name = ''A'', staff_dept = ''CSE'', staff_gender = ''F''\<rparr>,
      \<lparr>staff_name = ''B'', staff_dept = ''ECE'', staff_gender = ''M''\<rparr>,
      \<lparr>staff_name = ''C'', staff_dept = ''ECE'', staff_gender = ''F''\<rparr>]
     [\<lparr>room_no = ''101'', girls_only = True, single_staff = True\<rparr>,
      \<lparr>room_no = ''102'', girls_only = False, single_staff = False\<rparr>] ''2024-01-01''
   = Inr [\<lparr>allotted_room_no = ''101'',
            staff = [\<lparr>staff_name = ''C'', staff_dept = ''ECE'', staff_gender = ''F''\<rparr>]\<rparr>,
          \<lparr>allotted_room_no = ''102'',
            staff = [\<lparr>staff_name = ''B'', staff_dept = ''ECE'', staff_gender = ''M''\<rparr>,
                     \<lparr>staff_name = ''A'', staff_dept = ''CSE'', staff_gender = ''F''\<rparr>]\<rparr>]
   \<and> distinct (map staff_name
        [\<lparr>staff_name = ''A'', staff_dept = ''CSE'', staff_gender = ''F''\<rparr>,
         \<lparr>staff_name = ''B'', staff_dept = ''ECE'', staff_gender = ''M''\<rparr>,
         \<lparr>staff_name = ''C'', staff_dept = ''ECE'', staff_gender = ''F''\<rparr>])
   \<and> distinct [''C'', ''B'', ''A'']"
proof -
  have run: "allocate_staff No_File Suc
     [\<lparr>staff_name = ''A'', staff_dept = ''CSE'', staff_gender = ''F''\<rparr>,
      \<lparr>staff_name = ''B'', staff_dept = ''ECE'', staff_gender = ''M''\<rparr>,
      \<lparr>staff_name = ''C'', staff_dept = ''ECE'', staff_gender = ''F''\<rparr>]
     [\<lparr>room_no = ''101'', girls_only = True, single_staff = True\<rparr>,
      \<lparr>room_no = ''102'', girls_only = False, single_staff = False\<rparr>] ''2024-01-01''
   = Inr [\<lparr>allotted_room_no = ''101'',
            staff = [\<lparr>staff_name = ''C'', staff_dept = ''ECE'', staff_gender = ''F''\<rparr>]\<rparr>,
          \<lparr>allotted_room_no = ''102'',
            staff = [\<lparr>staff_name = ''B'', staff_dept = ''ECE'', staff_gender = ''M''\<rparr>,
                     \<lparr>staff_name = ''A'', staff_dept = ''CSE'', staff_gender = ''F''\<rparr>]\<rparr>]"
    by (simp add: engine_eval)
  have d: "distinct (map staff_name
        [\<lparr>staff_name = ''A'', staff_dept = ''CSE'', staff_gender = ''F''\<rparr>,
         \<lparr>staff_name = ''B'', staff_dept = ''ECE'', staff_gender = ''M''\<rparr>,
         \<lparr>staff_name = ''C'', staff_dept = ''ECE'', staff_gender = ''F''\<rparr>])"
    by simp
  from allocate_staff_no_reuse [OF run] d run show ?thesis
    by simp
qed

text \<open>
  C4: whenever the exclusion file is absent or loads, \<open>allocate_staff\<close> is the room loop
  run on its own \<open>classes_list\<close>, from the first requirement on, over the shuffled pool
  (a permutation of the staff list less the excluded). For a requirement \<open>r\<close> at any
  position, after the rooms \<open>earlier\<close> and before the rooms \<open>later\<close>: the result
  starts with exactly what the run over \<open>earlier\<close> alone returns, so no later room changes
  an earlier entry; the staff taken for \<open>r\<close> are the first \<open>1\<close> (single staff) or
  \<open>2\<close> of the eligible subset of the pool left by the earlier rooms, in pool order; the
  later rooms run on that pool with exactly the taken staff removed, the others in their
  order. The room loop itself handles the head requirement first and continues with the
  rest on the reduced pool, appending to the entries emitted so far.
\<close>

theorem allocate_staff_greedy_in_order:
  assumes "file \<noteq> Unreadable"
  shows "allocate_staff file rng staff_list classes_list date
           = process_rooms (spec_pool file rng staff_list) classes_list []
   \<and> mset (spec_pool file rng staff_list)
       = mset [s \<leftarrow> staff_list. strip (staff_name s) \<notin> spec_exclusion_set file]
   \<and> (let p = spec_pool_after (spec_pool file rng staff_list) earlier;
            taken = take (if single_staff r then 1 else 2)
                      (if girls_only r then filter is_female p else p)
        in (\<exists>out1 out2.
              allocate_staff file rng staff_list (earlier @ r # later) date
                = Inr (out1
                       @ (if taken = [] then []
                          else [\<lparr>allotted_room_no = room_no r, staff = taken\<rparr>])
                       @ out2)
            \<and> allocate_staff file rng staff_list earlier date = Inr out1
            \<and> process_rooms (spec_remove taken p) later [] = Inr out2)
         \<and> subseq taken p
         \<and> mset (spec_remove taken p) = mset p - mset taken
         \<and> subseq (spec_remove taken p) p)
   \<and> process_rooms pool [] acc = Inr acc
   \<and> process_rooms pool (r # rs) acc =
       process_rooms (spec_remove (spec_taken r pool) pool) rs
         (if spec_taken r pool \<noteq> []
          then acc @ [\<lparr>allotted_room_no = room_no r, staff = spec_taken r pool\<rparr>]
          else acc)
   \<and> spec_taken r pool =
       take (if single_staff r then 1 else 2)
         (if girls_only r then filter is_female pool else pool)
   \<and> subseq (spec_taken r pool) pool
   \<and> mset (spec_remove (spec_taken r pool) pool) = mset pool - mset (spec_taken r pool)
   \<and> subseq (spec_remove (spec_taken r pool) pool) pool
   \<and> process_rooms pool rs acc = Inr (acc @ [a \<leftarrow> spec_engine pool rs. staff a \<noteq> []])"
proof -
  define p where "p = spec_pool_after (spec_pool file rng staff_list) earlier"
  define t where "t = take (if single_staff r then 1 else 2)
                      (if girls_only r then filter is_female p else p)"
  define out1 where
    "out1 = [a \<leftarrow> spec_engine (spec_pool file rng staff_list) earlier. staff a \<noteq> []]"
  define out2 where "out2 = [a \<leftarrow> spec_engine (spec_remove t p) later. staff a \<noteq> []]"
  have t: "spec_taken r q =
      take (if single_staff r then 1 else 2) (if girls_only r then filter is_female q else q)" for q
    by (simp add: spec_taken_def spec_eligible_def spec_required_count_def)
  have tp: "spec_taken r p = t"
    by (simp only: t t_def)
  have after: "spec_pool_after (spec_pool file rng staff_list) (earlier @ [r]) = spec_remove t p"
    by (simp add: spec_pool_after_append p_def [symmetric] tp)
  have a: "allocate_staff file rng staff_list classes_list date
           = process_rooms (spec_pool file rng staff_list) classes_list []"
    using assms by (simp add: allocate_staff_spec process_rooms_spec)
  have b: "mset (spec_pool file rng staff_list)
       = mset [s \<leftarrow> staff_list. strip (staff_name s) \<notin> spec_exclusion_set file]"
    unfolding spec_pool_def by (rule mset_shuffle)
  have "allocate_staff file rng staff_list (earlier @ r # later) date =
      Inr (out1 @ (if spec_taken r p = [] then []
                   else [\<lparr>allotted_room_no = room_no r, staff = spec_taken r p\<rparr>])
           @ [a \<leftarrow> spec_engine (spec_pool_after (spec_pool file rng staff_list) (earlier @ [r])) later.
                staff a \<noteq> []])"
    unfolding out1_def p_def using assms by (rule room_segment)
  then have 1: "allocate_staff file rng staff_list (earlier @ r # later) date =
      Inr (out1 @ (if t = [] then [] else [\<lparr>allotted_room_no = room_no r, staff = t\<rparr>]) @ out2)"
    by (simp only: tp after out2_def)
  have 2: "allocate_staff file rng staff_list earlier date = Inr out1"
    unfolding out1_def using assms by (rule allocate_staff_spec)
  have 3: "process_rooms (spec_remove t p) later [] = Inr out2"
    unfolding out2_def by (simp add: process_rooms_spec)
  from 1 2 3 have ex: "\<exists>out1 out2.
              allocate_staff file rng staff_list (earlier @ r # later) date
                = Inr (out1
                       @ (if t = [] then []
                          else [\<lparr>allotted_room_no = room_no r, staff = t\<rparr>])
                       @ out2)
            \<and> allocate_staff file rng staff_list earlier date = Inr out1
            \<and> process_rooms (spec_remove t p) later [] = Inr out2"
    by (intro exI conjI)
  have s1: "subseq t p"
    using subseq_spec_taken [of r p] by (simp only: tp)
  have s2: "mset (spec_remove t p) = mset p - mset t"
    by (rule mset_spec_remove)
  have s3: "subseq (spec_remove t p) p"
    by (rule subseq_spec_remove)
  from ex s1 s2 s3 have c: "let p = spec_pool_after (spec_pool file rng staff_list) earlier;
            taken = take (if single_staff r then 1 else 2)
                      (if girls_only r then filter is_female p else p)
        in (\<exists>out1 out2.
              allocate_staff file rng staff_list (earlier @ r # later) date
                = Inr (out1
                       @ (if taken = [] then []
                          else [\<lparr>allotted_room_no = room_no r, staff = taken\<rparr>])
                       @ out2)
            \<and> allocate_staff file rng staff_list earlier date = Inr out1
            \<and> process_rooms (spec_remove taken p) later [] = Inr out2)
         \<and> subseq taken p
         \<and> mset (spec_remove taken p) = mset p - mset taken
         \<and> subseq (spec_remove taken p) p"
    unfolding Let_def p_def [symmetric] t_def [symmetric] by (intro conjI)
  have d: "process_rooms pool [] acc = Inr acc"
    by simp
  note e = process_rooms_step [of pool r rs acc]
  note f = t [of pool]
  note g = subseq_spec_taken [of r pool]
  note h = mset_spec_remove [of "spec_taken r pool" pool]
  note i = subseq_spec_remove [of "spec_taken r pool" pool]
  note j = process_rooms_spec [of pool rs acc]
  from a b c d e f g h i j show ?thesis
    by (intro conjI)
qed

theorem allocate_staff_greedy_in_order_witness:
  "No_File \<noteq> Unreadable
   \<and> allocate_staff No_File Suc
       [\<lparr>staff_name = ''A'', staff_dept = ''CSE'', staff_gender = ''F''\<rparr>,
        \<lparr>staff_name = ''B'', staff_dept = ''ECE'', staff_gender = ''M''\<rparr>,
        \<lparr>staff_name = ''C'', staff_dept = ''ECE'', staff_gender = ''F''\<rparr>]
       [\<lparr>room_no = ''101'', girls_only = True, single_staff = True\<rparr>,
        \<lparr>room_no = ''102'', girls_only = False, single_staff = False\<rparr>] ''2024-01-01''
     = Inr [\<lparr>allotted_room_no = ''101'',
              staff = [\<lparr>staff_name = ''C'', staff_dept = ''ECE'', staff_gender = ''F''\<rparr>]\<rparr>,
            \<lparr>allotted_room_no = ''102'',
              staff = [\<lparr>staff_name = ''B'', staff_dept = ''ECE'', staff_gender = ''M''\<rparr>,
                       \<lparr>staff_name = ''A'', staff_dept = ''CSE'', staff_gender = ''F''\<rparr>]\<rparr>]"
proof -
  have h: "No_File \<noteq> Unreadable" by simp
  show ?thesis
    using h allocate_staff_greedy_in_order [OF h, where rng = Suc and date = "''2024-01-01''"
      and staff_list =
        "[\<lparr>staff_name = ''A'', staff_dept = ''CSE'', staff_gender = ''F''\<rparr>,
          \<lparr>staff_name = ''B'', staff_dept = ''ECE'', staff_gender = ''M''\<rparr>,
          \<lparr>staff_name = ''C'', staff_dept = ''ECE'', staff_gender = ''F''\<rparr>]"
      and classes_list = "[]" and pool = "[]" and rs = "[]" and acc = "[]"
      and earlier = "[\<lparr>room_no = ''101'', girls_only = True, single_staff = True\<rparr>]"
      and r = "\<lparr>room_no = ''102'', girls_only = False, single_staff = False\<rparr>"
      and later = "[]"]
    by (simp add: engine_eval Let_def)
qed

text \<open>
  C5: with an exclusion file that lists \<open>excluded_staff\<close>, \<open>allocate_staff\<close> behaves as a
  run without exclusion file on the staff list from which every member whose stripped
  name is listed has been removed; it returns a result, and every staff member in it comes
  from the input and has a stripped name that is not listed.
\<close>

theorem allocate_staff_excludes:
  "allocate_staff (Names excluded_staff) rng staff_list classes_list date =
     allocate_staff No_File rng [s \<leftarrow> staff_list. strip (staff_name s) \<notin> set excluded_staff]
       classes_list date
   \<and> (\<exists>out. allocate_staff (Names excluded_staff) rng staff_list classes_list date = Inr out
          \<and> (\<forall>a \<in> set out. \<forall>s \<in> set (staff a).
                 s \<in> set staff_list \<and> strip (staff_name s) \<notin> set excluded_staff))"
proof -
  define kept where "kept = [s \<leftarrow> staff_list. strip (staff_name s) \<notin> set excluded_staff]"
  define out where "out = [a \<leftarrow> spec_engine (shuffle rng kept) classes_list. staff a \<noteq> []]"
  have eq: "allocate_staff (Names excluded_staff) rng staff_list classes_list date = Inr out"
    by (simp add: allocate_staff_def process_rooms_spec out_def kept_def)
  have "set (concat (map staff out)) \<subseteq> set (shuffle rng kept)"
    unfolding out_def by (rule set_assigned_subset)
  then have sub: "set (concat (map staff out)) \<subseteq> set kept"
    by (simp only: set_shuffle)
  have "s \<in> set staff_list \<and> strip (staff_name s) \<notin> set excluded_staff"
    if "a \<in> set out" and "s \<in> set (staff a)" for a s
  proof -
    from that have "s \<in> set (concat (map staff out))" by auto
    with sub have "s \<in> set kept" by (rule subsetD)
    then show ?thesis by (simp add: kept_def)
  qed
  then have all: "\<forall>a \<in> set out. \<forall>s \<in> set (staff a).
      s \<in> set staff_list \<and> strip (staff_name s) \<notin> set excluded_staff"
    by blast
  have same: "allocate_staff (Names excluded_staff) rng staff_list classes_list date =
     allocate_staff No_File rng [s \<leftarrow> staff_list. strip (staff_name s) \<notin> set excluded_staff]
       classes_list date"
    by (simp add: allocate_staff_def)
  from same eq all show ?thesis by (intro conjI exI)
qed

theorem allocate_staff_excludes_witness:
  "allocate_staff (Names [''A'']) id
     [\<lparr>staff_name = '' A '', staff_dept = ''CSE'', staff_gender = ''F''\<rparr>,
      \<lparr>staff_name = ''B'', staff_dept = ''ECE'', staff_gender = ''M''\<rparr>]
     [\<lparr>room_no = ''X'', girls_only = False, single_staff = False\<rparr>] ''2024-01-01''
   = Inr [\<lparr>allotted_room_no = ''X'',
            staff = [\<lparr>staff_name = ''B'', staff_dept = ''ECE'', staff_gender = ''M''\<rparr>]\<rparr>]"
  using allocate_staff_excludes [of "[''A'']" id
     "[\<lparr>staff_name = '' A '', staff_dept = ''CSE'', staff_gender = ''F''\<rparr>,
       \<lparr>staff_name = ''B'', staff_dept = ''ECE'', staff_gender = ''M''\<rparr>]"
     "[\<lparr>room_no = ''X'', girls_only = False, single_staff = False\<rparr>]" "''2024-01-01''"]
  by (simp add: engine_eval strip_def is_space_def)

text \<open>
  C6: the code at the failing input. When \<open>data/excluded_staff.json\<close> exists and cannot
  be loaded, \<open>allocate_staff\<close> raises instead of allotting as with an empty exclusion set;
  the same call without the file returns the allotment. The other readers of the file in
  \<open>desktop_app.py\<close> catch the failure and continue with the empty set.
\<close>

theorem allocate_staff_unreadable_exclusions_raise:
  "allocate_staff Unreadable id
     [\<lparr>staff_name = ''A'', staff_dept = ''CSE'', staff_gender = ''F''\<rparr>,
      \<lparr>staff_name = ''B'', staff_dept = ''ECE'', staff_gender = ''M''\<rparr>]
     [\<lparr>room_no = ''X'', girls_only = False, single_staff = False\<rparr>] ''2024-01-01''
   = Inl Exclusion_Read_Error
   \<and> allocate_staff No_File id
     [\<lparr>staff_name = ''A'', staff_dept = ''CSE'', staff_gender = ''F''\<rparr>,
      \<lparr>staff_name = ''B'', staff_dept = ''ECE'', staff_gender = ''M''\<rparr>]
     [\<lparr>room_no = ''X'', girls_only = False, single_staff = False\<rparr>] ''2024-01-01''
   = Inr [\<lparr>allotted_room_no = ''X'',
            staff = [\<lparr>staff_name = ''A'', staff_dept = ''CSE'', staff_gender = ''F''\<rparr>,
                     \<lparr>staff_name = ''B'', staff_dept = ''ECE'', staff_gender = ''M''\<rparr>]\<rparr>]"
  by (simp add: engine_eval)

text \<open>
  C7: when every room of \<open>available_classes\<close> has its frame, so that the frames read
  in order are the requirement list \<open>reqs\<close>, \<open>calculate_staff_requirements\<close> returns the
  sum of the headcounts (1 if single staff, else 2) over \<open>reqs\<close>, the same sum over the
  girls-only rooms, and their difference. In every case, the fallback \<open>(0, 0, 0)\<close>
  included, \<open>male_possible + female_required = total_required\<close>.
\<close>

theorem calculate_staff_requirements_sums:
  "(map room_frames available_classes = map Some reqs \<longrightarrow>
      calculate_staff_requirements room_frames available_classes =
        (sum_list (map spec_headcount reqs),
         sum_list (map spec_headcount (filter girls_only_var reqs)),
         sum_list (map spec_headcount reqs)
           - sum_list (map spec_headcount (filter girls_only_var reqs))))
   \<and> (case calculate_staff_requirements room_frames available_classes of
         (total_required, female_required, male_possible) \<Rightarrow>
           male_possible + female_required = total_required)"
proof
  show "map room_frames available_classes = map Some reqs \<longrightarrow>
      calculate_staff_requirements room_frames available_classes =
        (sum_list (map spec_headcount reqs),
         sum_list (map spec_headcount (filter girls_only_var reqs)),
         sum_list (map spec_headcount reqs)
           - sum_list (map spec_headcount (filter girls_only_var reqs)))"
    by (simp add: calculate_staff_requirements_def requirements_loop_sums)
  show "case calculate_staff_requirements room_frames available_classes of
         (total_required, female_required, male_possible) \<Rightarrow>
           male_possible + female_required = total_required"
    by (auto simp: calculate_staff_requirements_def split: option.splits prod.splits)
qed

theorem calculate_staff_requirements_sums_witness:
  "map [''101'' \<mapsto> \<lparr>girls_only_var = True, single_staff_var = True\<rparr>,
        ''102'' \<mapsto> \<lparr>girls_only_var = False, single_staff_var = False\<rparr>,
        ''103'' \<mapsto> \<lparr>girls_only_var = True, single_staff_var = False\<rparr>]
     [''101'', ''102'', ''103'']
   = map Some [\<lparr>girls_only_var = True, single_staff_var = True\<rparr>,
               \<lparr>girls_only_var = False, single_staff_var = False\<rparr>,
               \<lparr>girls_only_var = True, single_staff_var = False\<rparr>]
   \<and> calculate_staff_requirements
     [''101'' \<mapsto> \<lparr>girls_only_var = True, single_staff_var = True\<rparr>,
      ''102'' \<mapsto> \<lparr>girls_only_var = False, single_staff_var = False\<rparr>,
      ''103'' \<mapsto> \<lparr>girls_only_var = True, single_staff_var = False\<rparr>]
     [''101'', ''102'', ''103''] = (5, 3, 2)"
  using calculate_staff_requirements_sums [of
     "[''101'' \<mapsto> \<lparr>girls_only_var = True, single_staff_var = True\<rparr>,
       ''102'' \<mapsto> \<lparr>girls_only_var = False, single_staff_var = False\<rparr>,
       ''103'' \<mapsto> \<lparr>girls_only_var = True, single_staff_var = False\<rparr>]"
     "[''101'', ''102'', ''103'']"
     "[\<lparr>girls_only_var = True, single_staff_var = True\<rparr>,
       \<lparr>girls_only_var = False, single_staff_var = False\<rparr>,
       \<lparr>girls_only_var = True, single_staff_var = False\<rparr>]"]
  by (simp add: spec_headcount_def)

text \<open>
  C8: after \<open>set_date_config(date, config)\<close>, \<open>get_date_config(date)\<close> returns
  \<open>config\<close>, for every date, every configuration and every prior state. This holds for
  every outcome of the write, so in particular when the write succeeded.
\<close>

theorem set_then_get_date_config:
  "get_date_config (snd (set_date_config w date config self)) date = config"
  by (cases w) (simp_all add: get_date_config_def set_date_config_def save_configurations_def
      update_conv')

text \<open>
  C9: when the write fails, \<open>set_date_config\<close> returns \<open>False\<close> and raises nothing.
  The new entry is in memory and every other date reads as before; the file is not
  written with the new state: it is untouched when the failure comes before the file is
  opened, and left damaged when it comes after.
\<close>

theorem set_date_config_write_failure:
  "w \<noteq> Write_Ok \<Longrightarrow>
   fst (set_date_config w date config self) = False
   \<and> configurations (snd (set_date_config w date config self))
       = AList.update date config (configurations self)
   \<and> get_date_config (snd (set_date_config w date config self)) date = config
   \<and> (\<forall>d. d \<noteq> date \<longrightarrow>
         get_date_config (snd (set_date_config w date config self)) d = get_date_config self d)
   \<and> classes_file (snd (set_date_config w date config self))
       = (if w = Fails_Before_Open then classes_file self else Damaged)"
  by (cases w) (simp_all add: get_date_config_def set_date_config_def save_configurations_def
      update_conv')

theorem set_date_config_write_failure_witness:
  "Fails_Before_Open \<noteq> Write_Ok
   \<and> set_date_config Fails_Before_Open ''2024-01-02'' (JObj [(''rooms'', JArr [])])
       \<lparr>configurations = [(''2024-01-01'', default_config)],
        classes_file = Document (JObj [(''2024-01-01'', default_config)])\<rparr>
     = (False,
        \<lparr>configurations =
           [(''2024-01-01'', default_config), (''2024-01-02'', JObj [(''rooms'', JArr [])])],
         classes_file = Document (JObj [(''2024-01-01'', default_config)])\<rparr>)"
proof -
  have h: "Fails_Before_Open \<noteq> Write_Ok" by simp
  show ?thesis
    using set_date_config_write_failure [OF h, of "''2024-01-02''" "JObj [(''rooms'', JArr [])]"
      "\<lparr>configurations = [(''2024-01-01'', default_config)],
        classes_file = Document (JObj [(''2024-01-01'', default_config)])\<rparr>"]
    by (simp add: set_date_config_def save_configurations_def)
qed

text \<open>
  C10: \<open>clear_configurations\<close> returns no indication of success; whatever the outcome
  of the write, the dictionary in memory is empty afterwards and every date reads as the
  fresh default. The file holds the empty state only when the write succeeded; when the
  write fails before the file is opened, the file still holds its old content.
\<close>

theorem clear_configurations_swallows_failure:
  "configurations (clear_configurations w self) = []
   \<and> (\<forall>date. get_date_config (clear_configurations w self) date = default_config)
   \<and> (w = Write_Ok \<longrightarrow> classes_file (clear_configurations w self) = Document (JObj []))
   \<and> (w = Fails_Before_Open \<longrightarrow> classes_file (clear_configurations w self) = classes_file self)
   \<and> (w = Fails_After_Open \<longrightarrow> classes_file (clear_configurations w self) = Damaged)"
  by (cases w) (simp_all add: clear_configurations_def save_configurations_def get_date_config_def)

theorem clear_configurations_swallows_failure_witness:
  "get_date_config
     (clear_configurations Fails_Before_Open
        \<lparr>configurations = [(''2024-01-01'', JObj [(''rooms'', JArr [JStr ''101''])])],
         classes_file = Document (JObj [(''2024-01-01'', JObj [(''rooms'', JArr [JStr ''101''])])])\<rparr>)
     ''2024-01-01'' = default_config
   \<and> classes_file
     (clear_configurations Fails_Before_Open
        \<lparr>configurations = [(''2024-01-01'', JObj [(''rooms'', JArr [JStr ''101''])])],
         classes_file = Document (JObj [(''2024-01-01'', JObj [(''rooms'', JArr [JStr ''101''])])])\<rparr>)
     = Document (JObj [(''2024-01-01'', JObj [(''rooms'', JArr [JStr ''101''])])])"
  using clear_configurations_swallows_failure [of Fails_Before_Open
        "\<lparr>configurations = [(''2024-01-01'', JObj [(''rooms'', JArr [JStr ''101''])])],
         classes_file = Document (JObj [(''2024-01-01'', JObj [(''rooms'', JArr [JStr ''101''])])])\<rparr>"]
  by simp

end
